theory Spec2Isabelle
  imports Complex_Main
begin

section \<open>JavaScript values used by the page scripts\<close>

text \<open>
  The two scripts of \<^verbatim>\<open>console-manager.js\<close> are embedded function by function.
  A JavaScript number is given by its value, a rational, or is \<open>NaN\<close>.
  \<open>Math.round\<close> rounds to the nearest integer, a tie going up, that is
  \<open>\<lfloor>x + 1/2\<rfloor>\<close>. The timeouts are products of integer base timeouts with the
  constants \<open>0.8\<close>, \<open>1.0\<close>, \<open>1.5\<close> and \<open>2.0\<close>; they are computed exactly here,
  and the exact products are integers, so the rounded double-precision products are the
  same numbers. The backoff delays and the memory threshold are treated in double
  precision where they are defined.
\<close>

datatype js_number = NaN | Num rat

text \<open>
  What a property read \<^verbatim>\<open>obj[key]\<close> on an object literal of numbers can return:
  \<open>undefined\<close>, one of the numbers, or a member inherited from
  \<^verbatim>\<open>Object.prototype\<close> (a function, or the prototype object itself for
  \<^verbatim>\<open>__proto__\<close>).
\<close>

datatype js_value = Undefined | Number js_number | Inherited

fun truthy :: "js_value \<Rightarrow> bool" where
  "truthy Undefined = False"
| "truthy (Number NaN) = False"
| "truthy (Number (Num x)) = (x \<noteq> 0)"
| "truthy Inherited = True"

definition js_or :: "js_value \<Rightarrow> js_value \<Rightarrow> js_value" where
  "js_or a b = (if truthy a then a else b)"

fun ToNumber :: "js_value \<Rightarrow> js_number" where
  "ToNumber Undefined = NaN"
| "ToNumber (Number n) = n"
| "ToNumber Inherited = NaN"

fun js_times :: "js_number \<Rightarrow> js_number \<Rightarrow> js_number" where
  "js_times (Num x) (Num y) = Num (x * y)"
| "js_times _ _ = NaN"

definition round_half_up :: "rat \<Rightarrow> int" where
  "round_half_up x = \<lfloor>x + 1 / 2\<rfloor>"

fun Math_round :: "js_number \<Rightarrow> js_number" where
  "Math_round (Num x) = Num (of_int (round_half_up x))"
| "Math_round NaN = NaN"

definition Object_prototype_keys :: "string list" where
  "Object_prototype_keys =
     [''constructor'', ''__defineGetter__'', ''__defineSetter__'', ''hasOwnProperty'',
      ''__lookupGetter__'', ''__lookupSetter__'', ''isPrototypeOf'',
      ''propertyIsEnumerable'', ''toString'', ''valueOf'', ''__proto__'',
      ''toLocaleString'']"

text \<open>\<^verbatim>\<open>obj[key]\<close>: own properties first, then the prototype chain.\<close>

definition get_property :: "(string \<times> rat) list \<Rightarrow> string \<Rightarrow> js_value" where
  "get_property obj key =
     (case map_of obj key of
        Some v \<Rightarrow> Number (Num v)
      | None \<Rightarrow> if key \<in> set Object_prototype_keys then Inherited else Undefined)"

section \<open>AdaptivePerformanceSystem\<close>

subsection \<open>State and browser environment\<close>

text \<open>
  \<^verbatim>\<open>networkSpeed\<close> and \<^verbatim>\<open>deviceCapability\<close> are only ever assigned the string
  literals \<^verbatim>\<open>'fast'\<close>, \<^verbatim>\<open>'normal'\<close>, \<^verbatim>\<open>'slow'\<close> and \<^verbatim>\<open>'high'\<close>,
  \<^verbatim>\<open>'medium'\<close>, \<^verbatim>\<open>'low'\<close>; they are enumerations here.
\<close>

datatype network_speed = Fast | Normal | Slow

datatype device_capability = High | Medium | Low

text \<open>
  A recorded metric is the caller's object \<open>'m\<close> spread together with the
  \<^verbatim>\<open>Date.now()\<close> timestamp.
\<close>

record 'm aps =
  networkSpeed :: network_speed
  deviceCapability :: device_capability
  baseTimeouts :: "(string \<times> rat) list"
  retryAttempts :: int
  retryBackoffMultiplier :: rat
  performanceMetrics :: "('m \<times> int) list"
  maxMetricsHistory :: nat

record connection =
  effectiveType :: "string option"
  downlink :: "rat option"

text \<open>
  \<open>userAgent_isMobile\<close> is the result of the mobile regular expression on
  \<^verbatim>\<open>navigator.userAgent\<close>; an absent \<^verbatim>\<open>hardwareConcurrency\<close> or
  \<^verbatim>\<open>deviceMemory\<close> is \<open>None\<close>.
\<close>

record navigator_obj =
  nav_connection :: "connection option"
  nav_mozConnection :: "connection option"
  nav_webkitConnection :: "connection option"
  hardwareConcurrency :: "rat option"
  deviceMemory :: "rat option"
  userAgent_isMobile :: bool

record timing =
  loadEventEnd :: int
  navigationStart :: int

text \<open>
  \<open>performance_timing\<close> is \<open>None\<close> when \<^verbatim>\<open>window.performance\<close> or its
  \<^verbatim>\<open>timing\<close> is missing. A global that is not defined at all (\<open>None\<close> for
  \<open>navigator\<close> or \<open>window\<close>) makes the read throw a ReferenceError, which the
  \<^verbatim>\<open>try\<close> blocks of the detectors catch.
\<close>

record window_obj =
  performance_timing :: "timing option"

record browser =
  navigator :: "navigator_obj option"
  window :: "window_obj option"

definition baseTimeouts_table :: "(string \<times> rat) list" where
  "baseTimeouts_table =
     [(''loginCheck'', 8000), (''userFetch'', 8000), (''warningPanel'', 5000),
      (''autoCancel'', 5000), (''bookingsLoad'', 15000), (''notifications'', 5000),
      (''firebaseUser'', 45000), (''debounce'', 300), (''scrollDelay'', 150)]"

subsection \<open>Detection\<close>

text \<open>\<^verbatim>\<open>a || b || c\<close> on the three connection objects: the first one present.\<close>

definition first_connection :: "navigator_obj \<Rightarrow> connection option" where
  "first_connection nav =
     (case nav_connection nav of
        Some c \<Rightarrow> Some c
      | None \<Rightarrow> (case nav_mozConnection nav of
                   Some c \<Rightarrow> Some c
                 | None \<Rightarrow> nav_webkitConnection nav))"

definition detectNetworkSpeed :: "browser \<Rightarrow> 'm aps \<Rightarrow> 'm aps" where
  "detectNetworkSpeed env s =
     (case navigator env of
        None \<Rightarrow> s\<lparr>networkSpeed := Normal\<rparr>
      | Some nav \<Rightarrow>
          (case first_connection nav of
             Some conn \<Rightarrow>
               (let et = effectiveType conn in
                if et = Some ''4g'' \<or> et = Some ''wifi'' then s\<lparr>networkSpeed := Fast\<rparr>
                else if et = Some ''3g'' then s\<lparr>networkSpeed := Normal\<rparr>
                else if et = Some ''2g'' \<or> et = Some ''slow-2g'' then s\<lparr>networkSpeed := Slow\<rparr>
                else s)
           | None \<Rightarrow>
               (case window env of
                  None \<Rightarrow> s\<lparr>networkSpeed := Normal\<rparr>
                | Some win \<Rightarrow>
                    (case performance_timing win of
                       None \<Rightarrow> s
                     | Some t \<Rightarrow>
                         (let pageLoadTime = loadEventEnd t - navigationStart t in
                          if pageLoadTime > 3000 then s\<lparr>networkSpeed := Slow\<rparr>
                          else if pageLoadTime > 1500 then s\<lparr>networkSpeed := Normal\<rparr>
                          else s\<lparr>networkSpeed := Fast\<rparr>)))))"

text \<open>\<^verbatim>\<open>x || d\<close> on an optional number: \<open>undefined\<close> and \<open>0\<close> give the default.\<close>

definition number_or :: "rat option \<Rightarrow> rat \<Rightarrow> rat" where
  "number_or x d = (case x of None \<Rightarrow> d | Some v \<Rightarrow> if v = 0 then d else v)"

definition detectDeviceCapability :: "browser \<Rightarrow> 'm aps \<Rightarrow> 'm aps" where
  "detectDeviceCapability env s =
     (case navigator env of
        None \<Rightarrow> s\<lparr>deviceCapability := Medium\<rparr>
      | Some nav \<Rightarrow>
          (let cores = number_or (hardwareConcurrency nav) 1;
               ram = number_or (deviceMemory nav) 4;
               isMobile = userAgent_isMobile nav in
           if cores \<ge> 4 \<and> ram \<ge> 8 \<and> \<not> isMobile then s\<lparr>deviceCapability := High\<rparr>
           else if cores \<ge> 2 \<and> ram \<ge> 4 then s\<lparr>deviceCapability := Medium\<rparr>
           else s\<lparr>deviceCapability := Low\<rparr>))"

text \<open>
  The body of the five-second interval of \<^verbatim>\<open>setupMemoryMonitoring\<close>.
  \<open>memoryUsage\<close> is the double that the division
  \<^verbatim>\<open>usedJSHeapSize / jsHeapSizeLimit\<close> yields (the heap limit is positive, so the
  quotient is finite). It is compared with the doubles the literals \<^verbatim>\<open>0.9\<close> and
  \<^verbatim>\<open>0.5\<close> denote: \<open>0.5\<close> is exact, and \<^verbatim>\<open>0.9\<close> is the double
  \<open>8106479329266893 / 2\<^sup>5\<^sup>3\<close>, a little above nine tenths.
\<close>

definition double_0_9 :: rat where
  "double_0_9 = 8106479329266893 / 9007199254740992"

definition memoryCheck :: "browser \<Rightarrow> rat \<Rightarrow> 'm aps \<Rightarrow> 'm aps" where
  "memoryCheck env memoryUsage s =
     (if memoryUsage > double_0_9 then s\<lparr>deviceCapability := Low\<rparr>
      else if memoryUsage < 1 / 2 \<and> deviceCapability s = Low then detectDeviceCapability env s
      else s)"

text \<open>
  \<^verbatim>\<open>init\<close>: the two detectors; \<^verbatim>\<open>setupPerformanceMonitoring\<close> and
  \<^verbatim>\<open>setupMemoryMonitoring\<close> only register callbacks (\<open>recordMetric\<close> per resource
  entry, \<open>memoryCheck\<close> per tick), which are operations of their own below.
\<close>

definition init :: "browser \<Rightarrow> 'm aps \<Rightarrow> 'm aps" where
  "init env s = detectDeviceCapability env (detectNetworkSpeed env s)"

definition constructor :: "browser \<Rightarrow> 'm aps" where
  "constructor env =
     init env \<lparr>networkSpeed = Normal, deviceCapability = Medium,
               baseTimeouts = baseTimeouts_table, retryAttempts = 3,
               retryBackoffMultiplier = 3 / 2, performanceMetrics = [],
               maxMetricsHistory = 100\<rparr>"

subsection \<open>Metrics history\<close>

text \<open>\<^verbatim>\<open>push\<close>, then \<^verbatim>\<open>shift\<close> when the history is longer than the bound.\<close>

definition recordMetric :: "'m \<Rightarrow> int \<Rightarrow> 'm aps \<Rightarrow> 'm aps" where
  "recordMetric metric now s =
     (let pushed = performanceMetrics s @ [(metric, now)] in
      if length pushed > maxMetricsHistory s
      then s\<lparr>performanceMetrics := tl pushed\<rparr>
      else s\<lparr>performanceMetrics := pushed\<rparr>)"

definition reset :: "browser \<Rightarrow> 'm aps \<Rightarrow> 'm aps" where
  "reset env s = init env (s\<lparr>performanceMetrics := []\<rparr>)"

subsection \<open>Timeouts\<close>

text \<open>
  The two multiplier tables of \<^verbatim>\<open>getTimeout\<close>. Each has an entry for every value of
  its enumeration and every entry is truthy, so the \<^verbatim>\<open>|| 1.0\<close> after the lookups is
  never taken. The operation name comes from the caller and can be any string: its lookup
  in \<^verbatim>\<open>this.baseTimeouts\<close> is \<open>get_property\<close>, followed by \<^verbatim>\<open>|| 5000\<close>.
\<close>

fun networkMultiplier :: "network_speed \<Rightarrow> rat" where
  "networkMultiplier Fast = 8 / 10"
| "networkMultiplier Normal = 1"
| "networkMultiplier Slow = 2"

fun deviceMultiplier :: "device_capability \<Rightarrow> rat" where
  "deviceMultiplier High = 8 / 10"
| "deviceMultiplier Medium = 1"
| "deviceMultiplier Low = 15 / 10"

definition getTimeout :: "'m aps \<Rightarrow> string \<Rightarrow> js_number" where
  "getTimeout s operation =
     (let baseTimeout = js_or (get_property (baseTimeouts s) operation) (Number (Num 5000));
          finalTimeout =
            Math_round (js_times (js_times (ToNumber baseTimeout)
                                           (Num (networkMultiplier (networkSpeed s))))
                                 (Num (deviceMultiplier (deviceCapability s))))
      in finalTimeout)"

subsection \<open>Double precision\<close>

text \<open>
  The odd part of an integer and the number of factors 2 in it.
\<close>

function odd_part :: "int \<Rightarrow> int" where
  "odd_part n = (if n = 0 \<or> odd n then n else odd_part (n div 2))"
  by pat_completeness auto
termination
  by (relation "measure (\<lambda>n. nat \<bar>n\<bar>)") auto

declare odd_part.simps [simp del]

function twos :: "int \<Rightarrow> int" where
  "twos n = (if n = 0 \<or> odd n then 0 else 1 + twos (n div 2))"
  by pat_completeness auto
termination
  by (relation "measure (\<lambda>n. nat \<bar>n\<bar>)") auto

declare twos.simps [simp del]

text \<open>
  The rationals that are values of IEEE 754 doubles: zero, and \<open>\<plusminus> m \<sqdot> 2\<^sup>e\<close> with \<open>m\<close>
  odd, \<open>e \<ge> -1074\<close> and \<open>m < 2\<^sup>5\<^sup>3\<close> (\<open>m \<sqdot> 2\<^sup>e\<^sup>-\<^sup>9\<^sup>7\<^sup>1 < 2\<^sup>5\<^sup>3\<close> when \<open>e > 971\<close>); \<open>2\<^sup>5\<^sup>3\<close> is
  9007199254740992. An arithmetic operation on doubles whose exact result is such a
  value returns it.
\<close>

definition double_representable :: "rat \<Rightarrow> bool" where
  "double_representable x =
     (case quotient_of x of
        (p, q) \<Rightarrow>
          p = 0 \<or>
          (let m = odd_part \<bar>p\<bar>; e = twos \<bar>p\<bar> - twos q
           in odd_part q = 1 \<and> - 1074 \<le> e \<and> m * 2 ^ nat (e - 971) < 9007199254740992))"

subsection \<open>Retry with backoff\<close>

text \<open>
  A value that an operation can throw or reject with, told apart by what the property read
  \<^verbatim>\<open>error.message\<close> does on it. On \<open>undefined\<close> and \<open>null\<close> the read throws a
  TypeError (\<open>TypeError\<close> is that error). \<open>ThrownGetter x\<close> is an object whose
  \<^verbatim>\<open>message\<close> is an accessor (or a proxy trap) that throws \<open>x\<close>. \<open>Thrown e\<close> is
  any value whose \<^verbatim>\<open>message\<close> can be read: an \<^verbatim>\<open>Error\<close> object, a string, a
  number.
\<close>

datatype 'e thrown =
    ThrownUndefined
  | ThrownNull
  | TypeError
  | Thrown 'e
  | ThrownGetter "'e thrown"

text \<open>What reading \<^verbatim>\<open>error.message\<close> throws; \<open>None\<close> when the read returns.\<close>

fun read_message :: "'e thrown \<Rightarrow> 'e thrown option" where
  "read_message ThrownUndefined = Some TypeError"
| "read_message ThrownNull = Some TypeError"
| "read_message TypeError = None"
| "read_message (Thrown e) = None"
| "read_message (ThrownGetter x) = Some x"

text \<open>
  What \<^verbatim>\<open>executeWithRetry\<close> does that a caller can observe, in order: the calls of
  the operation (with the attempt number) and the \<^verbatim>\<open>setTimeout\<close> calls (with the
  delay in ms; \<open>None\<close> when this model does not determine the number, see below).
\<close>

datatype event = Invoke nat | Delay "int option"

text \<open>
  \<^verbatim>\<open>1000 * Math.pow(this.retryBackoffMultiplier, attempt - 1)\<close> and its
  \<^verbatim>\<open>Math.round\<close>; the loop counter \<open>attempt\<close> starts at 1. The computation is in
  doubles. \<^verbatim>\<open>Math.pow\<close> is implementation-approximated; it is taken to return the
  power itself when that is a double, and the multiplication by 1000 is exact when the
  product is a double. Where either is not, the number the engine computes is not
  determined here, and the result is \<open>None\<close>. \<^verbatim>\<open>Math.round\<close> is exact on every
  double.
\<close>

definition backoffUnrounded :: "rat \<Rightarrow> nat \<Rightarrow> rat option" where
  "backoffUnrounded multiplier attempt =
     (let power = multiplier ^ (attempt - 1);
          product = 1000 * power
      in if double_representable power \<and> double_representable product
         then Some product else None)"

definition backoffDelay :: "rat \<Rightarrow> nat \<Rightarrow> int option" where
  "backoffDelay multiplier attempt =
     map_option round_half_up (backoffUnrounded multiplier attempt)"

text \<open>
  The \<^verbatim>\<open>for\<close> loop. The operation is given by the outcomes of its successive
  calls: \<open>operation k\<close> is how the \<open>k\<close>-th call ends, \<open>Inl\<close> a rejection (or a
  synchronous throw) and \<open>Inr\<close> a value. \<open>maxAttempts\<close> is any number. The result is
  how the promise of \<^verbatim>\<open>executeWithRetry\<close> settles, with the events so far. The
  \<^verbatim>\<open>console.warn\<close> of the \<^verbatim>\<open>catch\<close> block reads \<^verbatim>\<open>error.message\<close>;
  when that read throws, the thrown value leaves the loop and rejects the promise.
\<close>

function retry_loop ::
  "rat \<Rightarrow> (nat \<Rightarrow> 'e thrown + 'a) \<Rightarrow> rat \<Rightarrow> nat \<Rightarrow> 'e thrown \<Rightarrow> event list
     \<Rightarrow> ('e thrown + 'a) \<times> event list" where
  "retry_loop multiplier operation maxAttempts attempt lastError evs =
     (if of_nat attempt \<le> maxAttempts then
        (case operation attempt of
           Inr result \<Rightarrow> (Inr result, evs @ [Invoke attempt])
         | Inl error \<Rightarrow>
             (case read_message error of
                Some thrown_by_read \<Rightarrow> (Inl thrown_by_read, evs @ [Invoke attempt])
              | None \<Rightarrow>
                  if of_nat attempt < maxAttempts
                  then retry_loop multiplier operation maxAttempts (Suc attempt) error
                         (evs @ [Invoke attempt, Delay (backoffDelay multiplier attempt)])
                  else retry_loop multiplier operation maxAttempts (Suc attempt) error
                         (evs @ [Invoke attempt])))
      else (Inl lastError, evs))"
  by pat_completeness auto
termination
proof (relation "measure (\<lambda>(m, operation, maxAttempts, attempt, e, evs).
                   nat (\<lfloor>maxAttempts\<rfloor> + 1 - int attempt))", goal_cases)
  case 1
  show ?case by simp
next
  case (2 multiplier operation maxAttempts attempt lastError evs error)
  then have "int attempt \<le> \<lfloor>maxAttempts\<rfloor>"
    by (simp add: le_floor_iff)
  then show ?case by simp
next
  case (3 multiplier operation maxAttempts attempt lastError evs error)
  then have "int attempt \<le> \<lfloor>maxAttempts\<rfloor>"
    by (simp add: le_floor_iff)
  then show ?case by simp
qed

declare retry_loop.simps [simp del]

text \<open>
  \<^verbatim>\<open>executeWithRetry(operation, operationName, maxAttempts)\<close>: \<open>operationName\<close>
  is only logged; an omitted \<open>maxAttempts\<close> (\<open>None\<close>) defaults to
  \<^verbatim>\<open>this.retryAttempts\<close>; \<^verbatim>\<open>let lastError;\<close> starts as \<open>undefined\<close>.
\<close>

definition executeWithRetry ::
  "'m aps \<Rightarrow> (nat \<Rightarrow> 'e thrown + 'a) \<Rightarrow> string \<Rightarrow> rat option
     \<Rightarrow> ('e thrown + 'a) \<times> event list" where
  "executeWithRetry s operation operationName maxAttempts =
     retry_loop (retryBackoffMultiplier s) operation
       (case maxAttempts of None \<Rightarrow> of_int (retryAttempts s) | Some n \<Rightarrow> n)
       1 ThrownUndefined []"

definition invocations :: "event list \<Rightarrow> nat list" where
  "invocations evs = concat (map (\<lambda>ev. case ev of Invoke k \<Rightarrow> [k] | Delay d \<Rightarrow> []) evs)"

subsection \<open>Timeout race\<close>

text \<open>
  A promise, by when it settles (ms after the call of \<^verbatim>\<open>executeWithTimeout\<close>) and
  how; \<open>NeverSettles\<close> stays pending for ever.
\<close>

datatype 'r promise = NeverSettles | SettlesAt rat 'r

text \<open>
  What calling \<^verbatim>\<open>operation()\<close> does: it throws before returning, or returns a promise
  (a returned value that is not a promise counts as a promise fulfilled at once).
\<close>

datatype ('e, 'a) call = Throws 'e | Returns "('e + 'a) promise"

text \<open>
  What the promise of \<^verbatim>\<open>executeWithTimeout\<close> can be rejected with: whatever the
  operation threw or rejected with, or the
  \<^verbatim>\<open>new Error(`${operationName} timeout after ${timeout}ms`)\<close> of the timer, given
  by the two values of its message.
\<close>

datatype 'e rejection = OperationError 'e | TimeoutError string js_number

fun operation_outcome :: "'e + 'a \<Rightarrow> 'e rejection + 'a" where
  "operation_outcome (Inl e) = Inl (OperationError e)"
| "operation_outcome (Inr v) = Inr v"

text \<open>
  When a timer set by \<^verbatim>\<open>setTimeout(f, timeout)\<close> fires, taken to be when its delay
  has elapsed. A \<open>NaN\<close> delay is 0. The timeouts \<^verbatim>\<open>getTimeout\<close> returns are \<open>NaN\<close>
  or integers between 96 and 135000 (lemma \<open>getTimeout_range\<close>), inside the range
  \<^verbatim>\<open>setTimeout\<close> takes as it is.
\<close>

fun timer_delay :: "js_number \<Rightarrow> rat" where
  "timer_delay NaN = 0"
| "timer_delay (Num x) = x"

text \<open>
  \<^verbatim>\<open>Promise.race([p, q])\<close> settles as the one that settles first; of two that settle
  at the same instant it is the first of the array, whose reaction was registered first.
\<close>

fun Promise_race :: "'r promise \<Rightarrow> 'r promise \<Rightarrow> 'r promise" where
  "Promise_race NeverSettles q = q"
| "Promise_race (SettlesAt t r) NeverSettles = SettlesAt t r"
| "Promise_race (SettlesAt t r) (SettlesAt u v) =
     (if t \<le> u then SettlesAt t r else SettlesAt u v)"

text \<open>
  \<^verbatim>\<open>executeWithTimeout(operation, operationName)\<close>. A throw of \<^verbatim>\<open>operation()\<close>
  happens while the array is built, before the timer is set, and rejects the promise of
  the \<^verbatim>\<open>async\<close> function at once.
\<close>

definition executeWithTimeout ::
  "'m aps \<Rightarrow> ('e, 'a) call \<Rightarrow> string \<Rightarrow> ('e rejection + 'a) promise" where
  "executeWithTimeout s operation operationName =
     (let timeout = getTimeout s operationName in
      case operation of
        Throws e \<Rightarrow> SettlesAt 0 (Inl (OperationError e))
      | Returns p \<Rightarrow>
          Promise_race
            (case p of
               NeverSettles \<Rightarrow> NeverSettles
             | SettlesAt t outcome \<Rightarrow> SettlesAt t (operation_outcome outcome))
            (SettlesAt (timer_delay timeout) (Inl (TimeoutError operationName timeout))))"

subsection \<open>Operations of the system\<close>

datatype 'm aps_op =
    DetectNetworkSpeed browser
  | DetectDeviceCapability browser
  | MemoryCheck browser rat
  | RecordMetric 'm int
  | GetTimeout string
  | Reset browser

fun aps_step :: "'m aps \<Rightarrow> 'm aps_op \<Rightarrow> 'm aps" where
  "aps_step s (DetectNetworkSpeed env) = detectNetworkSpeed env s"
| "aps_step s (DetectDeviceCapability env) = detectDeviceCapability env s"
| "aps_step s (MemoryCheck env usage) = memoryCheck env usage s"
| "aps_step s (RecordMetric metric now) = recordMetric metric now s"
| "aps_step s (GetTimeout operation) = s"
| "aps_step s (Reset env) = reset env s"

definition aps_run :: "browser \<Rightarrow> 'm aps_op list \<Rightarrow> 'm aps" where
  "aps_run env ops = foldl aps_step (constructor env) ops"

section \<open>ConsoleManager\<close>

subsection \<open>Strings\<close>

text \<open>\<^verbatim>\<open>String.prototype.startsWith\<close> and \<^verbatim>\<open>String.prototype.includes\<close>.\<close>

fun startsWith :: "string \<Rightarrow> string \<Rightarrow> bool" where
  "startsWith s [] = True"
| "startsWith [] (c # p) = False"
| "startsWith (x # s) (c # p) = (x = c \<and> startsWith s p)"

fun includes_str :: "string \<Rightarrow> string \<Rightarrow> bool" where
  "includes_str [] p = (p = [])"
| "includes_str (x # s) p = (startsWith (x # s) p \<or> includes_str s p)"

text \<open>\<^verbatim>\<open>pattern.substring(0, 20)\<close>.\<close>

definition substring_0_20 :: "string \<Rightarrow> string" where
  "substring_0_20 pattern = take 20 pattern"

subsection \<open>State\<close>

text \<open>
  The fields of the manager, and the part of the page it acts on: whether
  \<^verbatim>\<open>console.error\<close> and \<^verbatim>\<open>console.warn\<close> currently are the manager's
  overrides (\<open>overridden\<close>; \<^verbatim>\<open>restore\<close> puts the originals back), and the calls
  that reached the original \<^verbatim>\<open>console.error\<close> and \<^verbatim>\<open>console.warn\<close>, oldest
  first. A call is given by its message, \<^verbatim>\<open>args[0]?.toString() || ''\<close>. The
  \<^verbatim>\<open>console.log\<close> channel is not part of the state: its override reads the mode
  flags and writes nothing.
\<close>

record console_manager =
  suppressedErrors :: "string set"
  productionMode :: bool
  debugCategories :: "(string \<times> bool) list"
  suppressPatterns :: "string list"
  overridden :: bool
  error_output :: "string list"
  warn_output :: "string list"

definition suppressPatterns_initial :: "string list" where
  "suppressPatterns_initial =
     [''Tracking Prevention'', ''Permissions policy violation'', ''accelerometer'',
      ''streetview.js'', ''common.js'', ''init_embed.js'', ''Permission denied'',
      ''Error getting bookings'', ''Error getting users'', ''absences is not defined'',
      ''firebase-db.js'', ''Google Maps'']"

definition new_ConsoleManager :: console_manager where
  "new_ConsoleManager =
     \<lparr>suppressedErrors = {}, productionMode = True,
      debugCategories = [(''booking'', False), (''auth'', False), (''firebase'', False),
                         (''ui'', False), (''all'', False)],
      suppressPatterns = suppressPatterns_initial, overridden = True,
      error_output = [], warn_output = []\<rparr>"

subsection \<open>The overrides of console.error and console.warn\<close>

text \<open>
  The \<^verbatim>\<open>for (const pattern of self.suppressPatterns)\<close> loop of both overrides;
  \<open>tag\<close> is the empty string for \<^verbatim>\<open>console.error\<close> and \<^verbatim>\<open>'w-'\<close> for
  \<^verbatim>\<open>console.warn\<close>. The result is whether the loop left by \<^verbatim>\<open>return\<close>,
  and the set of keys afterwards.
\<close>

fun suppress_loop :: "string \<Rightarrow> string list \<Rightarrow> string \<Rightarrow> string set \<Rightarrow> bool \<times> string set" where
  "suppress_loop tag [] msg seen = (False, seen)"
| "suppress_loop tag (pattern # rest) msg seen =
     (if includes_str msg pattern then
        (let key = tag @ substring_0_20 pattern in
         if key \<in> seen then (True, seen)
         else suppress_loop tag rest msg (insert key seen))
      else suppress_loop tag rest msg seen)"

definition console_error_override :: "console_manager \<Rightarrow> string \<Rightarrow> console_manager" where
  "console_error_override s msg =
     (case suppress_loop [] (suppressPatterns s) msg (suppressedErrors s) of
        (True, seen) \<Rightarrow> s\<lparr>suppressedErrors := seen\<rparr>
      | (False, seen) \<Rightarrow>
          s\<lparr>suppressedErrors := seen, error_output := error_output s @ [msg]\<rparr>)"

definition console_warn_override :: "console_manager \<Rightarrow> string \<Rightarrow> console_manager" where
  "console_warn_override s msg =
     (case suppress_loop ''w-'' (suppressPatterns s) msg (suppressedErrors s) of
        (True, seen) \<Rightarrow> s\<lparr>suppressedErrors := seen\<rparr>
      | (False, seen) \<Rightarrow>
          s\<lparr>suppressedErrors := seen, warn_output := warn_output s @ [msg]\<rparr>)"

text \<open>A call of whatever \<^verbatim>\<open>console.error\<close> and \<^verbatim>\<open>console.warn\<close> are at the moment.\<close>

definition console_error :: "console_manager \<Rightarrow> string \<Rightarrow> console_manager" where
  "console_error s msg =
     (if overridden s then console_error_override s msg
      else s\<lparr>error_output := error_output s @ [msg]\<rparr>)"

definition console_warn :: "console_manager \<Rightarrow> string \<Rightarrow> console_manager" where
  "console_warn s msg =
     (if overridden s then console_warn_override s msg
      else s\<lparr>warn_output := warn_output s @ [msg]\<rparr>)"

subsection \<open>Methods\<close>

definition cm_reset :: "console_manager \<Rightarrow> console_manager" where
  "cm_reset s = s\<lparr>suppressedErrors := {}\<rparr>"

definition restore :: "console_manager \<Rightarrow> console_manager" where
  "restore s = s\<lparr>overridden := False\<rparr>"

text \<open>
  \<^verbatim>\<open>this.debugCategories[category] = value\<close>: an own property is overwritten, a
  missing one is created.
\<close>

definition set_category :: "(string \<times> bool) list \<Rightarrow> string \<Rightarrow> bool \<Rightarrow> (string \<times> bool) list" where
  "set_category categories category value =
     (if category \<in> fst ` set categories
      then map (\<lambda>(c, v). if c = category then (c, value) else (c, v)) categories
      else categories @ [(category, value)])"

definition enableVerboseMode :: "console_manager \<Rightarrow> console_manager" where
  "enableVerboseMode s =
     s\<lparr>productionMode := False,
       debugCategories := set_category (debugCategories s) ''all'' True,
       suppressedErrors := {},
       suppressPatterns := []\<rparr>"

definition enableProductionMode :: "console_manager \<Rightarrow> console_manager" where
  "enableProductionMode s =
     s\<lparr>productionMode := True,
       debugCategories := set_category (debugCategories s) ''all'' False\<rparr>"

text \<open>\<^verbatim>\<open>hasOwnProperty(category)\<close> guards the assignment.\<close>

definition enableDebugCategory :: "console_manager \<Rightarrow> string \<Rightarrow> console_manager" where
  "enableDebugCategory s category =
     (if category \<in> fst ` set (debugCategories s)
      then s\<lparr>debugCategories := set_category (debugCategories s) category True\<rparr>
      else s)"

text \<open>
  What page code can do to the manager through \<^verbatim>\<open>console\<close>, the
  \<^verbatim>\<open>window\<close> helpers and \<^verbatim>\<open>window.consoleManager\<close>.
\<close>

datatype cm_op =
    ConsoleError string
  | ConsoleWarn string
  | ConsoleLog string
  | ResetTracking
  | Restore
  | EnableVerboseMode
  | EnableProductionMode
  | EnableDebugCategory string

fun cm_step :: "console_manager \<Rightarrow> cm_op \<Rightarrow> console_manager" where
  "cm_step s (ConsoleError msg) = console_error s msg"
| "cm_step s (ConsoleWarn msg) = console_warn s msg"
| "cm_step s (ConsoleLog msg) = s"
| "cm_step s ResetTracking = cm_reset s"
| "cm_step s Restore = restore s"
| "cm_step s EnableVerboseMode = enableVerboseMode s"
| "cm_step s EnableProductionMode = enableProductionMode s"
| "cm_step s (EnableDebugCategory category) = enableDebugCategory s category"

definition cm_run :: "console_manager \<Rightarrow> cm_op list \<Rightarrow> console_manager" where
  "cm_run s ops = foldl cm_step s ops"

fun error_calls :: "cm_op list \<Rightarrow> string list" where
  "error_calls [] = []"
| "error_calls (ConsoleError msg # ops) = msg # error_calls ops"
| "error_calls (_ # ops) = error_calls ops"

fun warn_calls :: "cm_op list \<Rightarrow> string list" where
  "warn_calls [] = []"
| "warn_calls (ConsoleWarn msg # ops) = msg # warn_calls ops"
| "warn_calls (_ # ops) = warn_calls ops"


section \<open>Auxiliary definitions for the statements\<close>

text \<open>
  The fields no method assigns after the constructor, and the bound on the history.
\<close>

definition aps_inv :: "'m aps \<Rightarrow> bool" where
  "aps_inv s \<longleftrightarrow>
     baseTimeouts s = baseTimeouts_table \<and> retryBackoffMultiplier s = 3 / 2
     \<and> retryAttempts s = 3 \<and> maxMetricsHistory s = 100
     \<and> length (performanceMetrics s) \<le> 100"

subsection \<open>Example browsers\<close>

definition browser_4g :: browser where
  "browser_4g =
     \<lparr>navigator =
        Some \<lparr>nav_connection = Some \<lparr>effectiveType = Some ''4g'', downlink = Some 10\<rparr>,
              nav_mozConnection = None, nav_webkitConnection = None,
              hardwareConcurrency = Some 8, deviceMemory = Some 8,
              userAgent_isMobile = False\<rparr>,
      window = Some \<lparr>performance_timing = None\<rparr>\<rparr>"

definition browser_2g :: browser where
  "browser_2g =
     \<lparr>navigator =
        Some \<lparr>nav_connection = None,
              nav_mozConnection = Some \<lparr>effectiveType = Some ''2g'', downlink = None\<rparr>,
              nav_webkitConnection = None,
              hardwareConcurrency = None, deviceMemory = None,
              userAgent_isMobile = True\<rparr>,
      window = Some \<lparr>performance_timing = None\<rparr>\<rparr>"

definition browser_no_connection :: "int \<Rightarrow> browser" where
  "browser_no_connection loadEnd =
     \<lparr>navigator =
        Some \<lparr>nav_connection = None, nav_mozConnection = None, nav_webkitConnection = None,
              hardwareConcurrency = Some 4, deviceMemory = Some 4,
              userAgent_isMobile = False\<rparr>,
      window =
        Some \<lparr>performance_timing = Some \<lparr>loadEventEnd = loadEnd, navigationStart = 1000\<rparr>\<rparr>\<rparr>"

section \<open>Properties of the adaptive performance system\<close>

subsection \<open>Reachable states\<close>

lemma floor_numeral_div_rat:
  "\<lfloor>numeral a / numeral b :: rat\<rfloor> = numeral a div numeral b"
  by (metis floor_divide_of_int_eq of_int_numeral)

lemma detect_constants:
  "baseTimeouts (detectNetworkSpeed env s) = baseTimeouts s"
  "retryBackoffMultiplier (detectNetworkSpeed env s) = retryBackoffMultiplier s"
  "maxMetricsHistory (detectNetworkSpeed env s) = maxMetricsHistory s"
  "performanceMetrics (detectNetworkSpeed env s) = performanceMetrics s"
  "retryAttempts (detectNetworkSpeed env s) = retryAttempts s"
  "baseTimeouts (detectDeviceCapability env s) = baseTimeouts s"
  "retryBackoffMultiplier (detectDeviceCapability env s) = retryBackoffMultiplier s"
  "maxMetricsHistory (detectDeviceCapability env s) = maxMetricsHistory s"
  "performanceMetrics (detectDeviceCapability env s) = performanceMetrics s"
  "retryAttempts (detectDeviceCapability env s) = retryAttempts s"
  by (simp_all add: detectNetworkSpeed_def detectDeviceCapability_def Let_def
        split: option.splits)

lemma aps_inv_constructor: "aps_inv (constructor env)"
  by (simp add: aps_inv_def constructor_def init_def detect_constants)

lemma aps_inv_step: "aps_inv s \<Longrightarrow> aps_inv (aps_step s op)"
  by (cases op)
     (auto simp: aps_inv_def detect_constants memoryCheck_def recordMetric_def reset_def
        init_def Let_def)

lemma aps_inv_foldl: "aps_inv s \<Longrightarrow> aps_inv (foldl aps_step s ops)"
  by (induction ops arbitrary: s) (simp_all add: aps_inv_step)

lemma aps_inv_run: "aps_inv (aps_run env ops)"
  by (simp add: aps_run_def aps_inv_foldl aps_inv_constructor)

subsection \<open>getTimeout\<close>

lemma baseTimeouts_table_nonzero:
  "map_of baseTimeouts_table operation = Some base \<Longrightarrow> base \<noteq> 0"
  by (auto simp: baseTimeouts_table_def split: if_splits)

lemma getTimeout_own:
  assumes "map_of (baseTimeouts s) operation = Some base" and "base \<noteq> 0"
  shows "getTimeout s operation =
           Num (of_int \<lfloor>base * networkMultiplier (networkSpeed s)
                              * deviceMultiplier (deviceCapability s) + 1 / 2\<rfloor>)"
  using assms by (simp add: getTimeout_def get_property_def js_or_def round_half_up_def)

lemma getTimeout_default:
  assumes "map_of (baseTimeouts s) operation = None"
    and "operation \<notin> set Object_prototype_keys"
  shows "getTimeout s operation =
           Num (of_int \<lfloor>5000 * networkMultiplier (networkSpeed s)
                              * deviceMultiplier (deviceCapability s) + 1 / 2\<rfloor>)"
  using assms by (simp add: getTimeout_def get_property_def js_or_def round_half_up_def)

lemma getTimeout_inherited:
  assumes "map_of (baseTimeouts s) operation = None"
    and "operation \<in> set Object_prototype_keys"
  shows "getTimeout s operation = NaN"
  using assms by (simp add: getTimeout_def get_property_def js_or_def)

text \<open>
  For the entries of the table the exact product is an integer whatever the two
  classifications are, so rounding the double-precision product, which is off by far less
  than \<open>1/2\<close>, gives that integer too.
\<close>

lemma table_product_integral:
  assumes "map_of baseTimeouts_table operation = Some base"
  shows "of_int \<lfloor>base * networkMultiplier ns * deviceMultiplier dc\<rfloor>
           = base * networkMultiplier ns * deviceMultiplier dc"
proof -
  have "base \<in> {8000, 5000, 15000, 45000, 300, 150}"
    using assms by (auto simp: baseTimeouts_table_def split: if_splits)
  then show ?thesis
    by (cases ns; cases dc) (auto simp: floor_numeral_div_rat)
qed

text \<open>
  \<^bold>\<open>C1.\<close> What \<^verbatim>\<open>getTimeout\<close> returns for every operation name, in every state the
  system can reach. A name with an entry in \<^verbatim>\<open>baseTimeouts\<close> gets that base times
  the network multiplier (fast 0.8, normal 1.0, slow 2.0) times the device multiplier (high
  0.8, medium 1.0, low 1.5), rounded; \<^verbatim>\<open>"bookingsLoad"\<close> has base 15000. A name without
  an entry gets the same with the default base 5000, unless \<^verbatim>\<open>Object.prototype\<close>
  defines it: then \<^verbatim>\<open>this.baseTimeouts[operation]\<close> is an inherited function, which is
  truthy, the \<^verbatim>\<open>|| 5000\<close> default is not taken, and the product is \<open>NaN\<close>. The failing
  input of the claim is such a name: \<^verbatim>\<open>getTimeout("toString")\<close> is \<open>NaN\<close>, not a
  rounded product.
\<close>

theorem getTimeout_every_name:
  "(let s = aps_run env ops;
        networkMult = (case networkSpeed s of Fast \<Rightarrow> 8 / 10 | Normal \<Rightarrow> 1 | Slow \<Rightarrow> 2);
        deviceMult = (case deviceCapability s of High \<Rightarrow> 8 / 10 | Medium \<Rightarrow> 1 | Low \<Rightarrow> 15 / 10)
    in getTimeout s operation =
         (case map_of baseTimeouts_table operation of
            Some base \<Rightarrow> Num (of_int \<lfloor>base * networkMult * deviceMult + 1 / 2\<rfloor>)
          | None \<Rightarrow>
              if operation \<in> set Object_prototype_keys then NaN
              else Num (of_int \<lfloor>5000 * networkMult * deviceMult + 1 / 2\<rfloor>)))
   \<and> getTimeout (aps_run env ops) ''toString'' = NaN"
proof -
  let ?s = "aps_run env ops"
  have tab: "baseTimeouts ?s = baseTimeouts_table"
    using aps_inv_run [of env ops] by (simp add: aps_inv_def)
  have nm: "networkMultiplier (networkSpeed ?s) =
              (case networkSpeed ?s of Fast \<Rightarrow> 8 / 10 | Normal \<Rightarrow> 1 | Slow \<Rightarrow> 2)"
    by (cases "networkSpeed ?s") simp_all
  have dm: "deviceMultiplier (deviceCapability ?s) =
              (case deviceCapability ?s of High \<Rightarrow> 8 / 10 | Medium \<Rightarrow> 1 | Low \<Rightarrow> 15 / 10)"
    by (cases "deviceCapability ?s") simp_all
  have every: "getTimeout ?s operation =
         (case map_of baseTimeouts_table operation of
            Some base \<Rightarrow> Num (of_int \<lfloor>base * networkMultiplier (networkSpeed ?s)
                                          * deviceMultiplier (deviceCapability ?s) + 1 / 2\<rfloor>)
          | None \<Rightarrow>
              if operation \<in> set Object_prototype_keys then NaN
              else Num (of_int \<lfloor>5000 * networkMultiplier (networkSpeed ?s)
                                    * deviceMultiplier (deviceCapability ?s) + 1 / 2\<rfloor>))"
    for operation
  proof (cases "map_of baseTimeouts_table operation")
    case None
    then show ?thesis
      using getTimeout_default [of ?s operation] getTimeout_inherited [of ?s operation] tab
      by simp
  next
    case (Some base)
    then show ?thesis
      using getTimeout_own [of ?s operation base] baseTimeouts_table_nonzero [of operation base]
        tab
      by simp
  qed
  have "map_of baseTimeouts_table ''toString'' = None"
    "''toString'' \<in> set Object_prototype_keys"
    by (simp_all add: baseTimeouts_table_def Object_prototype_keys_def)
  then have "getTimeout ?s ''toString'' = NaN"
    using every [of "''toString''"] by simp
  then show ?thesis
    using every [of operation] unfolding Let_def nm dm by simp
qed

lemma speeds_4g:
  "networkSpeed (aps_run browser_4g ([] :: unit aps_op list)) = Fast"
  "deviceCapability (aps_run browser_4g ([] :: unit aps_op list)) = High"
  by (simp_all add: aps_run_def constructor_def init_def detectNetworkSpeed_def
        detectDeviceCapability_def browser_4g_def first_connection_def number_or_def)

theorem getTimeout_every_name_witness:
  "getTimeout (aps_run browser_4g ([] :: unit aps_op list)) ''bookingsLoad'' = Num 9600
   \<and> getTimeout (aps_run browser_4g ([] :: unit aps_op list)) ''unknownOp'' = Num 3200
   \<and> getTimeout (aps_run browser_4g ([] :: unit aps_op list)) ''constructor'' = NaN
   \<and> getTimeout (aps_run browser_4g ([] :: unit aps_op list)) ''toString'' = NaN"
  using getTimeout_every_name [of browser_4g "[] :: unit aps_op list" "''bookingsLoad''"]
    getTimeout_every_name [of browser_4g "[] :: unit aps_op list" "''unknownOp''"]
    getTimeout_every_name [of browser_4g "[] :: unit aps_op list" "''constructor''"]
  by (simp add: Let_def speeds_4g baseTimeouts_table_def Object_prototype_keys_def
        floor_numeral_div_rat)

text \<open>The timeouts are \<open>NaN\<close> or integers from 96 to 135000.\<close>

lemma getTimeout_range:
  "getTimeout (aps_run env ops) operation = NaN
   \<or> (\<exists>z. getTimeout (aps_run env ops) operation = Num (of_int z) \<and> 96 \<le> z \<and> z \<le> 135000)"
proof -
  let ?s = "aps_run env ops"
  have tab: "baseTimeouts ?s = baseTimeouts_table"
    using aps_inv_run [of env ops] by (simp add: aps_inv_def)
  have rng: "96 \<le> \<lfloor>base * networkMultiplier ns * deviceMultiplier dc + 1 / 2\<rfloor>
             \<and> \<lfloor>base * networkMultiplier ns * deviceMultiplier dc + 1 / 2\<rfloor> \<le> 135000"
    if "base \<in> {8000, 5000, 15000, 45000, 300, 150}" for base ns dc
    using that by (cases ns; cases dc) (auto simp: floor_numeral_div_rat)
  show ?thesis
  proof (cases "map_of baseTimeouts_table operation")
    case None
    show ?thesis
    proof (cases "operation \<in> set Object_prototype_keys")
      case True
      then show ?thesis using getTimeout_inherited [of ?s operation] None tab by simp
    next
      case False
      then show ?thesis
        using getTimeout_default [of ?s operation] None tab
          rng [of 5000 "networkSpeed ?s" "deviceCapability ?s"]
        by auto
    qed
  next
    case (Some base)
    then have "base \<in> {8000, 5000, 15000, 45000, 300, 150}"
      by (auto simp: baseTimeouts_table_def split: if_splits)
    then show ?thesis
      using getTimeout_own [of ?s operation base] baseTimeouts_table_nonzero [OF Some] Some tab
        rng [of base "networkSpeed ?s" "deviceCapability ?s"]
      by auto
  qed
qed

subsection \<open>detectNetworkSpeed\<close>

text \<open>
  When neither a connection object nor \<^verbatim>\<open>performance.timing\<close> is there, the
  classification is left as it was.
\<close>

lemma detectNetworkSpeed_nothing_to_read:
  "navigator env = Some nav \<Longrightarrow> first_connection nav = None \<Longrightarrow> window env = Some win \<Longrightarrow>
     performance_timing win = None \<Longrightarrow> detectNetworkSpeed env s = s"
  by (simp add: detectNetworkSpeed_def)

text \<open>
  \<^bold>\<open>C4.\<close> With a connection object present (the first of \<^verbatim>\<open>navigator.connection\<close>,
  \<^verbatim>\<open>mozConnection\<close>, \<^verbatim>\<open>webkitConnection\<close>), \<^verbatim>\<open>effectiveType\<close> \<^verbatim>\<open>"4g"\<close>
  is classified fast and \<^verbatim>\<open>"2g"\<close> slow. With none present, the page load time
  \<^verbatim>\<open>loadEventEnd - navigationStart\<close> of \<^verbatim>\<open>performance.timing\<close> decides: above 3000 ms
  slow, above 1500 ms normal, otherwise fast.
\<close>

theorem detectNetworkSpeed_classification:
  "(navigator env = Some nav \<and> first_connection nav = Some conn
      \<and> effectiveType conn = Some ''4g''
      \<longrightarrow> networkSpeed (detectNetworkSpeed env s) = Fast)
   \<and> (navigator env = Some nav \<and> first_connection nav = Some conn
      \<and> effectiveType conn = Some ''2g''
      \<longrightarrow> networkSpeed (detectNetworkSpeed env s) = Slow)
   \<and> (navigator env = Some nav \<and> first_connection nav = None
      \<and> window env = Some win \<and> performance_timing win = Some t
      \<longrightarrow> networkSpeed (detectNetworkSpeed env s) =
            (if loadEventEnd t - navigationStart t > 3000 then Slow
             else if loadEventEnd t - navigationStart t > 1500 then Normal
             else Fast))"
  by (simp add: detectNetworkSpeed_def Let_def)

theorem detectNetworkSpeed_classification_witness:
  "networkSpeed (detectNetworkSpeed browser_4g (constructor browser_2g :: unit aps)) = Fast
   \<and> networkSpeed (detectNetworkSpeed browser_2g (constructor browser_4g :: unit aps)) = Slow
   \<and> networkSpeed (detectNetworkSpeed (browser_no_connection 5000)
                      (constructor browser_4g :: unit aps)) = Slow
   \<and> networkSpeed (detectNetworkSpeed (browser_no_connection 3000)
                      (constructor browser_2g :: unit aps)) = Normal
   \<and> networkSpeed (detectNetworkSpeed (browser_no_connection 2500)
                      (constructor browser_2g :: unit aps)) = Fast"
  using detectNetworkSpeed_classification
          [of browser_4g "the (navigator browser_4g)"
              "\<lparr>effectiveType = Some ''4g'', downlink = Some 10\<rparr>"
              "constructor browser_2g :: unit aps"]
        detectNetworkSpeed_classification
          [of browser_2g "the (navigator browser_2g)"
              "\<lparr>effectiveType = Some ''2g'', downlink = None\<rparr>"
              "constructor browser_4g :: unit aps"]
        detectNetworkSpeed_classification
          [of "browser_no_connection 5000" "the (navigator (browser_no_connection 5000))" _
              "constructor browser_4g :: unit aps"
              "\<lparr>performance_timing = Some \<lparr>loadEventEnd = 5000, navigationStart = 1000\<rparr>\<rparr>"
              "\<lparr>loadEventEnd = 5000, navigationStart = 1000\<rparr>"]
        detectNetworkSpeed_classification
          [of "browser_no_connection 3000" "the (navigator (browser_no_connection 3000))" _
              "constructor browser_2g :: unit aps"
              "\<lparr>performance_timing = Some \<lparr>loadEventEnd = 3000, navigationStart = 1000\<rparr>\<rparr>"
              "\<lparr>loadEventEnd = 3000, navigationStart = 1000\<rparr>"]
        detectNetworkSpeed_classification
          [of "browser_no_connection 2500" "the (navigator (browser_no_connection 2500))" _
              "constructor browser_2g :: unit aps"
              "\<lparr>performance_timing = Some \<lparr>loadEventEnd = 2500, navigationStart = 1000\<rparr>\<rparr>"
              "\<lparr>loadEventEnd = 2500, navigationStart = 1000\<rparr>"]
  by (simp add: browser_4g_def browser_2g_def browser_no_connection_def first_connection_def)

subsection \<open>recordMetric\<close>

text \<open>
  \<^bold>\<open>C9.\<close> Whatever operations the system has gone through since its construction
  (detection, memory checks, \<^verbatim>\<open>recordMetric\<close>, \<^verbatim>\<open>getTimeout\<close>, \<^verbatim>\<open>reset\<close>; the
  remaining methods assign no field), the metrics history holds at most
  \<^verbatim>\<open>maxMetricsHistory\<close> = 100 entries; \<^verbatim>\<open>recordMetric\<close> appends the new entry, and
  drops the oldest one when the history was full.
\<close>

theorem metrics_history_bounded:
  "(let s = aps_run env ops; history = performanceMetrics s in
      length history \<le> 100 \<and> maxMetricsHistory s = 100
      \<and> performanceMetrics (recordMetric metric now s) =
            (if length history < 100 then history @ [(metric, now)]
             else tl history @ [(metric, now)])
      \<and> length (performanceMetrics (recordMetric metric now s)) \<le> 100)"
proof -
  have inv: "aps_inv (aps_run env ops)" by (rule aps_inv_run)
  then have "performanceMetrics (aps_run env ops) \<noteq> []"
    if "\<not> length (performanceMetrics (aps_run env ops)) < 100"
    using that by auto
  then show ?thesis
    using inv by (auto simp: aps_inv_def recordMetric_def Let_def)
qed

theorem metrics_history_bounded_witness:
  "length (performanceMetrics
             (aps_run browser_4g (map (\<lambda>i. RecordMetric i (int i)) [0..<100]))) = 100
   \<and> performanceMetrics
        (recordMetric 100 100 (aps_run browser_4g (map (\<lambda>i. RecordMetric i (int i)) [0..<100])))
       = tl (performanceMetrics
               (aps_run browser_4g (map (\<lambda>i. RecordMetric i (int i)) [0..<100])))
         @ [(100, 100)]"
proof -
  have l: "length (performanceMetrics
                     (aps_run browser_4g (map (\<lambda>i. RecordMetric i (int i)) [0..<100]))) = 100"
    by code_simp
  show ?thesis
    using metrics_history_bounded
            [of browser_4g "map (\<lambda>i. RecordMetric i (int i)) [0..<100]" 100 100] l
    by (simp add: Let_def)
qed

subsection \<open>executeWithTimeout\<close>

text \<open>
  \<^bold>\<open>C7.\<close> \<^verbatim>\<open>executeWithTimeout(operation, name)\<close> sets a timer of
  \<^verbatim>\<open>getTimeout(name)\<close> ms and races the promise of the operation against it. When the
  operation settles before the timer expires, the returned promise settles at that moment
  as the operation did, with its value or its rejection. When the timer expires first, or
  the operation never settles, the returned promise is rejected at the expiry with the
  timeout error naming the operation and the timeout.
\<close>

theorem executeWithTimeout_race:
  "(let timeout = getTimeout (aps_run env ops) operationName;
        expiry = timer_delay timeout
    in (t < expiry \<longrightarrow>
          executeWithTimeout (aps_run env ops) (Returns (SettlesAt t (outcome :: 'e + 'a)))
              operationName
            = SettlesAt t (operation_outcome outcome))
       \<and> (expiry < t \<longrightarrow>
          executeWithTimeout (aps_run env ops) (Returns (SettlesAt t outcome)) operationName
            = SettlesAt expiry (Inl (TimeoutError operationName timeout)))
       \<and> executeWithTimeout (aps_run env ops) (Returns (NeverSettles :: ('e + 'a) promise))
              operationName
            = SettlesAt expiry (Inl (TimeoutError operationName timeout)))"
  by (simp add: executeWithTimeout_def Let_def)

theorem executeWithTimeout_race_witness:
  "executeWithTimeout (aps_run browser_4g ([] :: unit aps_op list))
      (Returns (SettlesAt 5000 (Inr ''rows'' :: unit + string))) ''bookingsLoad''
     = SettlesAt 5000 (Inr ''rows'')
   \<and> executeWithTimeout (aps_run browser_4g ([] :: unit aps_op list))
      (Returns (SettlesAt 5000 (Inl () :: unit + string))) ''bookingsLoad''
     = SettlesAt 5000 (Inl (OperationError ()))
   \<and> executeWithTimeout (aps_run browser_4g ([] :: unit aps_op list))
      (Returns (SettlesAt 20000 (Inr ''rows'' :: unit + string))) ''bookingsLoad''
     = SettlesAt 9600 (Inl (TimeoutError ''bookingsLoad'' (Num 9600)))
   \<and> executeWithTimeout (aps_run browser_4g ([] :: unit aps_op list))
      (Returns (NeverSettles :: (unit + string) promise)) ''bookingsLoad''
     = SettlesAt 9600 (Inl (TimeoutError ''bookingsLoad'' (Num 9600)))"
proof -
  have "map_of (baseTimeouts (aps_run browser_4g ([] :: unit aps_op list))) ''bookingsLoad''
          = Some 15000"
    using aps_inv_run [of browser_4g "[] :: unit aps_op list"]
    by (simp add: aps_inv_def baseTimeouts_table_def)
  from getTimeout_own [OF this]
  have g: "getTimeout (aps_run browser_4g ([] :: unit aps_op list)) ''bookingsLoad'' = Num 9600"
    by (simp add: speeds_4g floor_numeral_div_rat)
  show ?thesis
    using executeWithTimeout_race
            [where t = 5000 and env = browser_4g and ops = "[] :: unit aps_op list"
               and operationName = "''bookingsLoad''"
               and outcome = "Inr ''rows'' :: unit + string"]
          executeWithTimeout_race
            [where t = 5000 and env = browser_4g and ops = "[] :: unit aps_op list"
               and operationName = "''bookingsLoad''"
               and outcome = "Inl () :: unit + string"]
          executeWithTimeout_race
            [where t = 20000 and env = browser_4g and ops = "[] :: unit aps_op list"
               and operationName = "''bookingsLoad''"
               and outcome = "Inr ''rows'' :: unit + string"]
    by (simp add: Let_def g)
qed
text \<open>
  The two cases the claim leaves open: a throw of \<^verbatim>\<open>operation()\<close> itself rejects
  at once, and an operation that settles at the very instant of the expiry is taken.
\<close>

lemma executeWithTimeout_throws:
  "executeWithTimeout s (Throws e) operationName = SettlesAt 0 (Inl (OperationError e))"
  by (simp add: executeWithTimeout_def)

lemma executeWithTimeout_tie:
  "executeWithTimeout s (Returns (SettlesAt (timer_delay (getTimeout s operationName)) outcome))
       operationName
     = SettlesAt (timer_delay (getTimeout s operationName)) (operation_outcome outcome)"
  by (simp add: executeWithTimeout_def)

subsection \<open>Doubles\<close>

lemma odd_part_odd: "odd a \<Longrightarrow> odd_part a = a"
  by (subst odd_part.simps) simp

lemma twos_odd: "odd a \<Longrightarrow> twos a = 0"
  by (subst twos.simps) simp

lemma odd_part_times_pow2: "odd a \<Longrightarrow> odd_part (a * 2 ^ k) = a"
proof (induction k)
  case 0
  then show ?case by (simp add: odd_part_odd)
next
  case (Suc k)
  have "a * 2 ^ Suc k \<noteq> 0" using Suc.prems by auto
  moreover have "a * 2 ^ Suc k div 2 = a * 2 ^ k" by simp
  ultimately show ?case
    using Suc by (subst odd_part.simps) simp
qed

lemma twos_times_pow2: "odd a \<Longrightarrow> twos (a * 2 ^ k) = int k"
proof (induction k)
  case 0
  then show ?case by (simp add: twos_odd)
next
  case (Suc k)
  have "a * 2 ^ Suc k \<noteq> 0" using Suc.prems by auto
  moreover have "a * 2 ^ Suc k div 2 = a * 2 ^ k" by simp
  ultimately show ?case
    using Suc by (subst twos.simps) simp
qed

text \<open>Integers \<open>a \<sqdot> 2\<^sup>k\<close> and fractions \<open>a / 2\<^sup>k\<close> with \<open>a\<close> odd.\<close>

lemma double_representable_integer:
  assumes "odd a" "0 < a"
  shows "double_representable (of_int (a * 2 ^ k)) \<longleftrightarrow> a * 2 ^ (k - 971) < 9007199254740992"
proof -
  have q: "quotient_of (of_int (a * 2 ^ k)) = (a * 2 ^ k, 1)"
    by (simp add: of_int_rat quotient_of_Fract)
  have nz: "a * 2 ^ k \<noteq> 0" "\<bar>a * 2 ^ k\<bar> = a * 2 ^ k"
    using assms by auto
  have "nat (int k - 971) = k - 971" by simp
  then show ?thesis
    unfolding double_representable_def q prod.case Let_def nz
      odd_part_times_pow2 [OF assms(1)] twos_times_pow2 [OF assms(1)]
    using nz(1) odd_part_odd [of 1] twos_odd [of 1] by simp
qed

lemma double_representable_fraction:
  assumes "odd a" "0 < a" "0 < k"
  shows "double_representable (of_int a / 2 ^ k) \<longleftrightarrow> k \<le> 1074 \<and> a < 9007199254740992"
proof -
  have "coprime a (2 ^ k)" using assms by simp
  then have "quotient_of (Fract a (2 ^ k)) = (a, 2 ^ k)"
    by (simp add: quotient_of_Fract)
  moreover have "Fract a (2 ^ k) = of_int a / 2 ^ k"
    by (simp add: Fract_of_int_quotient)
  ultimately have q: "quotient_of (of_int a / 2 ^ k) = (a, 2 ^ k)" by simp
  have p2: "odd_part (2 ^ k) = 1" "twos (2 ^ k) = int k"
    using odd_part_times_pow2 [of 1 k] twos_times_pow2 [of 1 k] by simp_all
  have "nat (- int k - 971) = 0" by simp
  then show ?thesis
    using assms odd_part_odd [of a] twos_odd [of a]
    by (auto simp: double_representable_def q p2 Let_def)
qed

lemma power_3_2: "(3 / 2 :: rat) ^ n = of_int (3 ^ n) / 2 ^ n"
  by (simp add: power_divide)

lemma product_3_2: "(1000 :: rat) * (3 / 2) ^ (n + 3) = of_int (125 * 3 ^ (n + 3)) / 2 ^ n"
  by (simp add: power_divide power_add)

lemma pow3_bound: "n \<le> 29 \<Longrightarrow> (125 :: int) * 3 ^ n < 9007199254740992"
proof -
  assume "n \<le> 29"
  then have "(3 :: int) ^ n \<le> 3 ^ 29" by (intro power_increasing) simp_all
  then show ?thesis by simp
qed

lemma backoffUnrounded_exact:
  assumes "1 \<le> k" "k \<le> 30"
  shows "backoffUnrounded (3 / 2) k = Some (1000 * (3 / 2) ^ (k - 1))"
proof -
  define n where "n = k - 1"
  have n: "n \<le> 29" using assms by (simp add: n_def)
  have b: "(3 :: int) ^ n < 9007199254740992" "(125 :: int) * 3 ^ n < 9007199254740992"
    using pow3_bound [OF n] by simp_all
  have pw: "double_representable ((3 / 2) ^ n)"
  proof (cases "n = 0")
    case True
    then show ?thesis
      using double_representable_integer [of 1 0] by simp
  next
    case False
    then show ?thesis
      using double_representable_fraction [of "3 ^ n" n] b n by (simp add: power_3_2)
  qed
  have pr: "double_representable (1000 * (3 / 2) ^ n)"
  proof -
    consider "n = 0" | "n = 1" | "n = 2" | "n = 3" | m where "n = m + 3" "0 < m"
      by (metis add.commute add_2_eq_Suc' add_Suc_right less_Suc_eq_0_disj less_imp_Suc_add
            numeral_3_eq_3 One_nat_def not_gr_zero numeral_2_eq_2)
    then show ?thesis
    proof cases
      case 1
      then show ?thesis using double_representable_integer [of 125 3] by simp
    next
      case 2
      then show ?thesis using double_representable_integer [of 375 2] by simp
    next
      case 3
      then show ?thesis using double_representable_integer [of 1125 1] by (simp add: power2_eq_square)
    next
      case 4
      then show ?thesis using double_representable_integer [of 3375 0]
        by (simp add: power3_eq_cube)
    next
      case (5 m)
      have "odd ((125 :: int) * 3 ^ (m + 3))" by simp
      moreover have "(0 :: int) < 125 * 3 ^ (m + 3)" by simp
      ultimately show ?thesis
        using double_representable_fraction [of "125 * 3 ^ (m + 3)" m] 5 b n
        unfolding 5(1) product_3_2 by simp
    qed
  qed
  show ?thesis
    using pw pr by (simp add: backoffUnrounded_def n_def Let_def)
qed

subsection \<open>The retry loop, step by step\<close>

lemma retry_loop_done:
  "\<not> of_nat attempt \<le> maxAttempts \<Longrightarrow>
     retry_loop m operation maxAttempts attempt lastError evs = (Inl lastError, evs)"
  by (subst retry_loop.simps) simp

lemma retry_loop_success:
  "of_nat attempt \<le> maxAttempts \<Longrightarrow> operation attempt = Inr v \<Longrightarrow>
     retry_loop m operation maxAttempts attempt lastError evs = (Inr v, evs @ [Invoke attempt])"
  by (subst retry_loop.simps) simp

lemma retry_loop_message_throws:
  "of_nat attempt \<le> maxAttempts \<Longrightarrow> operation attempt = Inl err \<Longrightarrow>
     read_message err = Some x \<Longrightarrow>
     retry_loop m operation maxAttempts attempt lastError evs = (Inl x, evs @ [Invoke attempt])"
  by (subst retry_loop.simps) simp

lemma retry_loop_retry:
  "of_nat attempt < maxAttempts \<Longrightarrow> operation attempt = Inl err \<Longrightarrow>
     read_message err = None \<Longrightarrow>
     retry_loop m operation maxAttempts attempt lastError evs =
       retry_loop m operation maxAttempts (Suc attempt) err
         (evs @ [Invoke attempt, Delay (backoffDelay m attempt)])"
  by (subst retry_loop.simps) simp

lemma retry_loop_last:
  assumes "of_nat attempt = maxAttempts" "operation attempt = Inl err" "read_message err = None"
  shows "retry_loop m operation maxAttempts attempt lastError evs
           = (Inl err, evs @ [Invoke attempt])"
proof -
  have "retry_loop m operation maxAttempts attempt lastError evs =
          retry_loop m operation maxAttempts (Suc attempt) err (evs @ [Invoke attempt])"
    using assms by (subst retry_loop.simps) auto
  also have "\<dots> = (Inl err, evs @ [Invoke attempt])"
    using assms by (intro retry_loop_done) auto
  finally show ?thesis .
qed



text \<open>
  While the attempts fail with a readable message and another attempt is left, the loop
  calls, waits and goes on.
\<close>

lemma retry_loop_failures:
  assumes "\<And>j. a \<le> j \<Longrightarrow> j \<le> k \<Longrightarrow> \<exists>err. operation j = Inl err \<and> read_message err = None"
    and "of_nat (Suc k) \<le> maxAttempts"
    and "a \<le> Suc k"
  shows "\<exists>e'. retry_loop m operation maxAttempts a e evs =
               retry_loop m operation maxAttempts (Suc k) e'
                 (evs @ concat (map (\<lambda>j. [Invoke j, Delay (backoffDelay m j)]) [a..<Suc k]))"
  using assms
proof (induction "Suc k - a" arbitrary: a e evs)
  case 0
  then have "a = Suc k" by simp
  then show ?case by auto
next
  case (Suc d)
  then have lt: "a \<le> k" by simp
  from Suc.prems(1) [of a] lt obtain err where
    err: "operation a = Inl err" "read_message err = None" by auto
  have "(of_nat a :: rat) < of_nat (Suc k)" using lt by simp
  then have alt: "of_nat a < maxAttempts" using Suc.prems(2) by simp
  have step: "retry_loop m operation maxAttempts a e evs =
                retry_loop m operation maxAttempts (Suc a) err
                  (evs @ [Invoke a, Delay (backoffDelay m a)])"
    using alt err by (rule retry_loop_retry)
  have "\<exists>e'. retry_loop m operation maxAttempts (Suc a) err
                (evs @ [Invoke a, Delay (backoffDelay m a)]) =
             retry_loop m operation maxAttempts (Suc k) e'
               ((evs @ [Invoke a, Delay (backoffDelay m a)])
                  @ concat (map (\<lambda>j. [Invoke j, Delay (backoffDelay m j)]) [Suc a..<Suc k]))"
    using Suc.hyps(2) Suc.prems lt by (intro Suc.hyps(1)) auto
  moreover have "[a..<Suc k] = a # [Suc a..<Suc k]"
    using lt by (simp add: upt_conv_Cons)
  ultimately show ?case
    using step by simp
qed

lemma backoffDelay_exact:
  assumes "1 \<le> k" "k \<le> 30"
  shows "backoffDelay (3 / 2) k = Some \<lfloor>(1000::rat) * (3 / 2) ^ (k - 1) + 1 / 2\<rfloor>"
  using backoffUnrounded_exact [OF assms] by (simp add: backoffDelay_def round_half_up_def)


subsection \<open>executeWithRetry\<close>

text \<open>
  \<^bold>\<open>C10.\<close> Called with \<^verbatim>\<open>maxAttempts\<close> \<open>\<le> 0\<close>, \<^verbatim>\<open>executeWithRetry\<close> never calls
  the operation and rejects with \<open>undefined\<close>, the value \<^verbatim>\<open>lastError\<close> was declared
  with.
\<close>

theorem executeWithRetry_no_attempts:
  "maxAttempts \<le> 0 \<Longrightarrow>
     executeWithRetry s operation operationName (Some maxAttempts) = (Inl ThrownUndefined, [])"
  by (simp add: executeWithRetry_def retry_loop_done)

theorem executeWithRetry_no_attempts_witness:
  "executeWithRetry (constructor browser_4g :: unit aps) (\<lambda>k. Inr k :: unit thrown + nat)
      ''load'' (Some 0) = (Inl ThrownUndefined, [])
   \<and> executeWithRetry (constructor browser_4g :: unit aps) (\<lambda>k. Inr k :: unit thrown + nat)
      ''load'' (Some (- 2)) = (Inl ThrownUndefined, [])"
  using executeWithRetry_no_attempts
          [of 0 "constructor browser_4g :: unit aps" "\<lambda>k. Inr k :: unit thrown + nat" "''load''"]
        executeWithRetry_no_attempts
          [of "- 2" "constructor browser_4g :: unit aps" "\<lambda>k. Inr k :: unit thrown + nat"
              "''load''"]
  by simp




text \<open>
  An operation that fails on each of its first \<open>n\<close> calls with a value whose
  \<^verbatim>\<open>message\<close> can be read is called exactly \<open>n\<close> times under \<^verbatim>\<open>maxAttempts = n\<close>,
  and the caller gets the rejection of the \<open>n\<close>-th call.
\<close>

lemma executeWithRetry_always_failing:
  assumes "\<And>k. 1 \<le> k \<Longrightarrow> k \<le> n \<Longrightarrow> \<exists>err. operation k = Inl err \<and> read_message err = None"
    and "1 \<le> n"
  shows "fst (executeWithRetry s operation operationName (Some (of_nat n))) = operation n"
    and "invocations (snd (executeWithRetry s operation operationName (Some (of_nat n))))
           = [1..<Suc n]"
proof -
  let ?m = "retryBackoffMultiplier s"
  obtain k where k: "n = Suc k" using assms(2) by (cases n) auto
  let ?pre = "concat (map (\<lambda>j. [Invoke j, Delay (backoffDelay ?m j)]) [1..<Suc k])"
  from assms(1) [of n] k obtain err where err: "operation n = Inl err" "read_message err = None"
    by auto
  from retry_loop_failures [of 1 k operation "of_nat n" ?m ThrownUndefined "[]"] assms(1) k
  obtain e' where
    "retry_loop ?m operation (of_nat n) 1 ThrownUndefined [] =
       retry_loop ?m operation (of_nat n) (Suc k) e' ([] @ ?pre)"
    by auto
  moreover have "retry_loop ?m operation (of_nat n) (Suc k) e' ?pre
                   = (Inl err, ?pre @ [Invoke (Suc k)])"
    using err k by (intro retry_loop_last) auto
  ultimately have r: "executeWithRetry s operation operationName (Some (of_nat n))
                        = (operation n, ?pre @ [Invoke n])"
    using err k by (simp add: executeWithRetry_def)
  have "invocations ?pre = [1..<Suc k]"
    by (induction k) (simp_all add: invocations_def)
  then show "fst (executeWithRetry s operation operationName (Some (of_nat n))) = operation n"
    and "invocations (snd (executeWithRetry s operation operationName (Some (of_nat n))))
           = [1..<Suc n]"
    using r k by (simp_all add: invocations_def)
qed

text \<open>
  \<^bold>\<open>C2.\<close> The failing input: an operation that rejects with \<open>undefined\<close> on every call,
  \<^verbatim>\<open>maxAttempts = 3\<close>. The first \<^verbatim>\<open>catch\<close> reads \<^verbatim>\<open>error.message\<close> of
  \<open>undefined\<close>, which throws a TypeError out of the loop: the operation is called once,
  not three times, and the caller gets the TypeError, not the error of the last attempt.
\<close>

theorem executeWithRetry_undefined_rejection:
  "executeWithRetry s (\<lambda>k. Inl ThrownUndefined) operationName (Some 3)
     = (Inl TypeError, [Invoke 1])"
  by (simp add: executeWithRetry_def retry_loop_message_throws)

text \<open>
  An operation that fails twice with values whose \<^verbatim>\<open>message\<close> can be read and then
  succeeds: three calls, two waits of 1000 ms and 1500 ms, and the value of the third call.
\<close>

lemma executeWithRetry_third_succeeds:
  assumes "operation 1 = Inl e1" "read_message e1 = None"
    and "operation 2 = Inl e2" "read_message e2 = None"
    and "operation 3 = Inr v"
    and "retryBackoffMultiplier s = 3 / 2"
  shows "executeWithRetry s operation operationName (Some 3)
           = (Inr v, [Invoke 1, Delay (Some 1000), Invoke 2, Delay (Some 1500), Invoke 3])"
proof -
  have op: "operation (Suc 0) = Inl e1" "operation (Suc (Suc 0)) = Inl e2"
    "operation (Suc (Suc (Suc 0))) = Inr v"
    using assms(1,3,5) by (simp_all add: eval_nat_numeral)
  have d: "backoffDelay (3 / 2) (Suc 0) = Some 1000" "backoffDelay (3 / 2) (Suc (Suc 0)) = Some 1500"
    using backoffDelay_exact [of 1] backoffDelay_exact [of 2]
    by (simp_all add: floor_numeral_div_rat eval_nat_numeral)
  have "retry_loop (3 / 2) operation 3 (Suc 0) ThrownUndefined []
          = retry_loop (3 / 2) operation 3 (Suc (Suc 0)) e1 [Invoke (Suc 0), Delay (Some 1000)]"
    using op(1) assms(2) by (simp add: retry_loop_retry d)
  also have "\<dots> = retry_loop (3 / 2) operation 3 (Suc (Suc (Suc 0))) e2
                      [Invoke (Suc 0), Delay (Some 1000), Invoke (Suc (Suc 0)), Delay (Some 1500)]"
    using op(2) assms(4) by (simp add: retry_loop_retry d)
  also have "\<dots> = (Inr v, [Invoke (Suc 0), Delay (Some 1000), Invoke (Suc (Suc 0)),
                            Delay (Some 1500), Invoke (Suc (Suc (Suc 0)))])"
    using op(3) by (simp add: retry_loop_success)
  finally show ?thesis
    unfolding executeWithRetry_def assms(6) by (simp add: eval_nat_numeral)
qed

text \<open>
  \<^bold>\<open>C3.\<close> The failing input: an operation that rejects with \<open>undefined\<close> on its first
  two calls and would return \<open>v\<close> on the third, \<^verbatim>\<open>maxAttempts = 3\<close>. The first
  \<^verbatim>\<open>catch\<close> throws a TypeError on \<^verbatim>\<open>error.message\<close>: one call, no wait, and a
  rejection instead of \<open>v\<close>.
\<close>

theorem executeWithRetry_undefined_then_success:
  "executeWithRetry s (\<lambda>k. if k < 3 then Inl ThrownUndefined else Inr v) operationName (Some 3)
     = (Inl TypeError, [Invoke 1])"
  by (simp add: executeWithRetry_def retry_loop_message_throws)

text \<open>
  With \<^verbatim>\<open>maxAttempts = 2.5\<close> the second attempt is the last, and a wait still follows
  it, since \<open>2 < 2.5\<close>.
\<close>

lemma executeWithRetry_fractional_maxAttempts:
  assumes "operation 1 = Inl e1" "read_message e1 = None"
    and "operation 2 = Inl e2" "read_message e2 = None"
    and "retryBackoffMultiplier s = 3 / 2"
  shows "executeWithRetry s operation operationName (Some (5 / 2))
           = (Inl e2, [Invoke 1, Delay (Some 1000), Invoke 2, Delay (Some 1500)])"
proof -
  have op: "operation (Suc 0) = Inl e1" "operation (Suc (Suc 0)) = Inl e2"
    using assms(1,3) by (simp_all add: eval_nat_numeral)
  have d: "backoffDelay (3 / 2) (Suc 0) = Some 1000" "backoffDelay (3 / 2) (Suc (Suc 0)) = Some 1500"
    using backoffDelay_exact [of 1] backoffDelay_exact [of 2]
    by (simp_all add: floor_numeral_div_rat eval_nat_numeral)
  have "retry_loop (3 / 2) operation (5 / 2) (Suc 0) ThrownUndefined []
          = retry_loop (3 / 2) operation (5 / 2) (Suc (Suc 0)) e1 [Invoke (Suc 0), Delay (Some 1000)]"
    using op(1) assms(2) by (simp add: retry_loop_retry d)
  also have "\<dots> = retry_loop (3 / 2) operation (5 / 2) (Suc (Suc (Suc 0))) e2
                      [Invoke (Suc 0), Delay (Some 1000), Invoke (Suc (Suc 0)), Delay (Some 1500)]"
    using op(2) assms(4) by (simp add: retry_loop_retry d)
  also have "\<dots> = (Inl e2, [Invoke (Suc 0), Delay (Some 1000), Invoke (Suc (Suc 0)),
                            Delay (Some 1500)])"
    by (simp add: retry_loop_done)
  finally show ?thesis
    unfolding executeWithRetry_def assms(5) by (simp add: eval_nat_numeral)
qed

section \<open>Properties of the console manager\<close>

subsection \<open>The pattern loop\<close>











subsection \<open>console.error\<close>







subsection \<open>enableVerboseMode\<close>

lemma no_patterns_step:
  "suppressPatterns s = [] \<Longrightarrow>
     suppressPatterns (cm_step s op) = []
     \<and> error_output (cm_step s op) = error_output s @ error_calls [op]
     \<and> warn_output (cm_step s op) = warn_output s @ warn_calls [op]"
  by (cases op)
     (simp_all add: console_error_def console_warn_def console_error_override_def
        console_warn_override_def cm_reset_def restore_def enableVerboseMode_def
        enableProductionMode_def enableDebugCategory_def)

lemma error_calls_Cons: "error_calls (op # ops) = error_calls [op] @ error_calls ops"
  by (cases op) simp_all

lemma warn_calls_Cons: "warn_calls (op # ops) = warn_calls [op] @ warn_calls ops"
  by (cases op) simp_all

lemma no_patterns_run:
  "suppressPatterns s = [] \<Longrightarrow>
     suppressPatterns (cm_run s ops) = []
     \<and> error_output (cm_run s ops) = error_output s @ error_calls ops
     \<and> warn_output (cm_run s ops) = warn_output s @ warn_calls ops"
proof (induction ops arbitrary: s)
  case Nil
  then show ?case by (simp add: cm_run_def)
next
  case (Cons op ops)
  from no_patterns_step [OF Cons.prems, of op]
  have st: "suppressPatterns (cm_step s op) = []"
    "error_output (cm_step s op) = error_output s @ error_calls [op]"
    "warn_output (cm_step s op) = warn_output s @ warn_calls [op]" by simp_all
  from Cons.IH [OF st(1)] st(2,3) show ?case
    using error_calls_Cons [of op ops] warn_calls_Cons [of op ops]
    by (simp add: cm_run_def)
qed

text \<open>
  \<^bold>\<open>C6.\<close> \<^verbatim>\<open>enableVerboseMode\<close> empties the set of recorded keys and the pattern
  list, and from then on every message given to \<^verbatim>\<open>console.error\<close> or
  \<^verbatim>\<open>console.warn\<close> reaches the original function, whatever is called in between:
  the pattern list stays empty through \<^verbatim>\<open>enableProductionMode\<close>, \<^verbatim>\<open>reset\<close> and
  every other operation, none of which restores it.
\<close>

theorem enableVerboseMode_disables_filtering:
  "suppressedErrors (enableVerboseMode s) = {}
   \<and> suppressPatterns (enableVerboseMode s) = []
   \<and> suppressPatterns (cm_run (enableVerboseMode s) ops) = []
   \<and> error_output (cm_run (enableVerboseMode s) ops) = error_output s @ error_calls ops
   \<and> warn_output (cm_run (enableVerboseMode s) ops) = warn_output s @ warn_calls ops"
  using no_patterns_run [of "enableVerboseMode s" ops]
  by (simp add: enableVerboseMode_def)

theorem enableVerboseMode_disables_filtering_witness:
  "error_output
     (cm_run (enableVerboseMode (console_error new_ConsoleManager ''Google Maps a''))
        [ConsoleError ''Google Maps a'', EnableProductionMode, ResetTracking,
         ConsoleWarn ''Google Maps a'', ConsoleError ''Google Maps a'',
         ConsoleWarn ''Google Maps a''])
     = [''Google Maps a'', ''Google Maps a'', ''Google Maps a'']
   \<and> warn_output
     (cm_run (enableVerboseMode (console_error new_ConsoleManager ''Google Maps a''))
        [ConsoleError ''Google Maps a'', EnableProductionMode, ResetTracking,
         ConsoleWarn ''Google Maps a'', ConsoleError ''Google Maps a'',
         ConsoleWarn ''Google Maps a''])
     = [''Google Maps a'', ''Google Maps a'']"
proof -
  have e: "error_output (console_error new_ConsoleManager ''Google Maps a'') = [''Google Maps a'']"
    and w: "warn_output (console_error new_ConsoleManager ''Google Maps a'') = []"
    by (simp_all add: console_error_def console_error_override_def new_ConsoleManager_def
          suppressPatterns_initial_def substring_0_20_def)
  show ?thesis
    using enableVerboseMode_disables_filtering
            [of "console_error new_ConsoleManager ''Google Maps a''"
                "[ConsoleError ''Google Maps a'', EnableProductionMode, ResetTracking,
                  ConsoleWarn ''Google Maps a'', ConsoleError ''Google Maps a'',
                  ConsoleWarn ''Google Maps a'']"]
    by (simp add: e w)
qed

end
